theory Spec2Isabelle
  imports Complex_Main
begin

section \<open>Values\<close>

text \<open>
  A Python float is modelled as an exact real number or the value \<open>nan\<close>. The only place
  where the program produces \<open>nan\<close> is the mean of an empty array (numpy warns and returns
  \<open>nan\<close>; it does not raise). Overflow to infinity and non-finite samples inside an audio
  file are not modelled: a sample is a real number. Rounding of IEEE-754 arithmetic is
  not modelled in sums, means and quotients, where it moves a result by a few units in the
  last place. It is kept where it can change a count: the value that \<open>np.std\<close> returns, the
  height threshold of the peak search, is a parameter of the model.
\<close>

datatype pyfloat = Flt real | NaN

text \<open>Comparisons with \<open>nan\<close> are false.\<close>

fun flt_less :: "pyfloat \<Rightarrow> real \<Rightarrow> bool" where
  "flt_less (Flt x) c = (x < c)"
| "flt_less NaN c = False"

fun flt_le_val :: "pyfloat \<Rightarrow> real \<Rightarrow> bool" where
  "flt_le_val (Flt h) v = (h \<le> v)"
| "flt_le_val NaN v = False"

text \<open>
  Every exception of the program is a value. All of them are subclasses of Python's
  \<open>Exception\<close>, so an \<open>except Exception\<close> clause catches each one.
\<close>

datatype error =
    HTTPException nat string
  | ValueError string
  | ZeroDivisionError
  | LibraryError string

text \<open>
  What \<open>soundfile.read\<close> returns: a one-dimensional array for a mono file, and a
  two-dimensional array (frames by channels) otherwise. A frame of a two-dimensional
  array holds at least one channel, written as the first channel and the remaining ones.
\<close>

datatype ndarray = Mono "real list" | Multi "(real \<times> real list) list"

record features =
  energy :: pyfloat
  zcr :: pyfloat
  peak_density :: pyfloat

text \<open>
  The request body \<open>AudioRequest\<close> and the response body \<open>PredictionResponse\<close>. Every field
  of the request is \<open>str | None\<close>; \<open>None\<close> stands for a field that is null. A field left out
  of the body takes its default, which is \<open>None\<close> for the first three fields and
  \<open>Some ''English''\<close> for the language.
\<close>

record AudioRequest =
  audio_url :: "string option"
  audioBase64 :: "string option"
  audioFormat :: "string option"
  language :: "string option"

record PredictionResponse =
  classification :: string
  confidence :: real
  language :: string
  explanation :: string

section \<open>The world outside the process\<close>

text \<open>
  The temporary directory is a store from paths to file contents. The trace records the
  effects a request has on the outside: network calls, files created and files unlinked.
\<close>

type_synonym path = string
type_synonym bytes = string

datatype event = HttpGet string | TmpCreate path | Unlink path

record world =
  files :: "path \<rightharpoonup> bytes"
  trace :: "event list"

text \<open>
  The libraries the program calls are parameters of the model:
  \<^item> \<open>urlparse_scheme\<close>: \<open>urlparse(url).scheme\<close>, or the exception \<open>urlparse\<close> raises;
  \<^item> \<open>http_get\<close>: the status code and body that \<open>client.get(url)\<close> yields, or the exception
    of the HTTP client (a timeout, a refused connection);
  \<^item> \<open>b64decode\<close>: \<open>base64.b64decode\<close>, or its exception;
  \<^item> \<open>tmp_name\<close>: the name \<open>NamedTemporaryFile\<close> picks for a suffix, or its exception when
    no file can be created;
  \<^item> \<open>tmp_write_error\<close>: the exception, if any, that \<open>tmp.write\<close> or \<open>tmp.close\<close> raises
    (a full disk, for instance);
  \<^item> \<open>sf_read\<close>: the array \<open>soundfile.read\<close> decodes from a file, or its exception;
  \<^item> \<open>np_std\<close>: the value \<open>np.std\<close> returns for an array, computed in float64. The
    exact standard deviation is \<open>np_std_exact\<close> below; the computed one can differ from
    it in the last digits.
\<close>

record env =
  urlparse_scheme :: "string \<Rightarrow> error + string"
  http_get :: "string \<Rightarrow> error + nat \<times> bytes"
  b64decode :: "string \<Rightarrow> error + bytes"
  tmp_name :: "string \<Rightarrow> error + path"
  tmp_write_error :: "path \<Rightarrow> bytes \<Rightarrow> error option"
  sf_read :: "path \<Rightarrow> bytes \<Rightarrow> error + ndarray"
  np_std :: "real list \<Rightarrow> pyfloat"

section \<open>numpy and scipy operations used by the feature extractor\<close>

text \<open>\<open>audio.mean(axis=1)\<close>: the arithmetic mean of the channels of every frame.\<close>

definition mean_axis1 :: "(real \<times> real list) list \<Rightarrow> real list" where
  "mean_axis1 frames = map (\<lambda>(c, cs). (c + sum_list cs) / real (Suc (length cs))) frames"

text \<open>\<open>np.mean\<close> of a one-dimensional array; \<open>nan\<close> for the empty array.\<close>

definition np_mean :: "real list \<Rightarrow> pyfloat" where
  "np_mean a = (if a = [] then NaN else Flt (sum_list a / real (length a)))"

text \<open>\<open>np.diff\<close>: \<open>a[1:] - a[:-1]\<close>, one element shorter than a non-empty input.\<close>

fun np_diff :: "real list \<Rightarrow> real list" where
  "np_diff (x # y # zs) = (y - x) # np_diff (y # zs)"
| "np_diff [x] = []"
| "np_diff [] = []"

text \<open>
  What \<open>np.std\<close> computes, without rounding: the square root of the mean of the squared
  deviations from the mean.
\<close>

definition np_std_exact :: "real list \<Rightarrow> pyfloat" where
  "np_std_exact a =
     (case np_mean a of
        NaN \<Rightarrow> NaN
      | Flt mu \<Rightarrow>
          (case np_mean (map (\<lambda>x. \<bar>x - mu\<bar> ^ 2) a) of
             NaN \<Rightarrow> NaN
           | Flt v \<Rightarrow> Flt (sqrt v)))"

text \<open>
  scipy's \<open>_local_maxima_1d\<close>, the scan behind \<open>find_peaks\<close>. The inner loop looks ahead
  over samples equal to \<open>x[i]\<close>:
  \<^verbatim>\<open>
    while i_ahead < i_max and x[i_ahead] == x[i]:
        i_ahead += 1
  \<close>
\<close>

function look_ahead :: "real list \<Rightarrow> real \<Rightarrow> nat \<Rightarrow> nat \<Rightarrow> nat" where
  "look_ahead x v i_ahead i_max =
     (if i_ahead < i_max \<and> x ! i_ahead = v
      then look_ahead x v (i_ahead + 1) i_max
      else i_ahead)"
  by pat_completeness auto
termination
  by (relation "measure (\<lambda>(x, v, i_ahead, i_max). i_max - i_ahead)") auto

declare look_ahead.simps [simp del]

text \<open>
  The outer loop. The first and the last sample are never maxima; a run of equal samples
  that rises on its left and falls on its right is reported once, at its midpoint:
  \<^verbatim>\<open>
    i = 1
    i_max = x.shape[0] - 1
    while i < i_max:
        if x[i - 1] < x[i]:
            i_ahead = i + 1
            (inner loop)
            if x[i_ahead] < x[i]:
                left_edges[m] = i
                right_edges[m] = i_ahead - 1
                midpoints[m] = (left_edges[m] + right_edges[m]) // 2
                m += 1
                i = i_ahead
        i += 1
  \<close>
\<close>

function maxima_loop :: "real list \<Rightarrow> nat \<Rightarrow> nat \<Rightarrow> nat list" where
  "maxima_loop x i i_max =
     (if i < i_max then
        (if x ! (i - 1) < x ! i then
           (let i_ahead = look_ahead x (x ! i) (i + 1) i_max in
            if x ! i_ahead < x ! i
            then ((i + (i_ahead - 1)) div 2) # maxima_loop x (i_ahead + 1) i_max
            else maxima_loop x (i + 1) i_max)
         else maxima_loop x (i + 1) i_max)
      else [])"
  by pat_completeness auto
termination
proof (relation "measure (\<lambda>(x, i, i_max). i_max - i)")
  show "wf (measure (\<lambda>(x, i, i_max). i_max - i))" by simp
next
  fix x :: "real list" and i i_max i_ahead :: nat
  assume lt: "i < i_max" and ia: "i_ahead = look_ahead x (x ! i) (i + 1) i_max"
  have ge: "s \<le> look_ahead y v s m" for y v s m
  proof (induction y v s m rule: look_ahead.induct)
    case (1 y v s m)
    then show ?case by (subst look_ahead.simps) (auto dest: Suc_leD)
  qed
  have "i + 1 \<le> i_ahead" unfolding ia by (rule ge)
  with lt show "((x, i_ahead + 1, i_max), (x, i, i_max)) \<in> measure (\<lambda>(x, i, i_max). i_max - i)"
    by simp
qed auto

declare maxima_loop.simps [simp del]

text \<open>For the empty array \<open>i_max\<close> is \<open>-1\<close> in the library and 0 here; the loop does not run
  in either case.\<close>

definition local_maxima_1d :: "real list \<Rightarrow> nat list" where
  "local_maxima_1d x = maxima_loop x 1 (length x - 1)"

text \<open>\<open>find_peaks(x, height=h)\<close>: the local maxima whose value is at least \<open>h\<close>.\<close>

definition find_peaks :: "real list \<Rightarrow> pyfloat \<Rightarrow> nat list" where
  "find_peaks x height = filter (\<lambda>p. flt_le_val height (x ! p)) (local_maxima_1d x)"

text \<open>Python's true division of two integers.\<close>

definition py_truediv :: "int \<Rightarrow> int \<Rightarrow> error + real" where
  "py_truediv a b = (if b = 0 then Inl ZeroDivisionError else Inr (real_of_int a / real_of_int b))"

section \<open>Feature extraction\<close>

text \<open>
  The body of \<open>extract_features\<close> after the file has been read:
  \<^verbatim>\<open>
    if audio.ndim > 1:
        audio = audio.mean(axis=1)
    energy = float(np.mean(audio ** 2))
    zcr = float(np.mean(np.abs(np.diff(np.sign(audio)))))
    peaks, _ = find_peaks(np.abs(audio), height=np.std(audio))
    peak_density = float(len(peaks) / len(audio))
    return {"energy": energy, "zcr": zcr, "peak_density": peak_density}
  \<close>
  The two means of an empty array are \<open>nan\<close>; the division in the last assignment is
  between Python integers and raises when the array is empty.
\<close>

definition extract_features_from :: "env \<Rightarrow> ndarray \<Rightarrow> error + features" where
  "extract_features_from ev arr =
     (let audio = (case arr of Mono a \<Rightarrow> a | Multi frames \<Rightarrow> mean_axis1 frames);
          e = np_mean (map (\<lambda>s. s ^ 2) audio);
          z = np_mean (map abs (np_diff (map sgn audio)));
          peaks = find_peaks (map abs audio) (np_std ev audio)
      in case py_truediv (int (length peaks)) (int (length audio)) of
           Inl err \<Rightarrow> Inl err
         | Inr pd \<Rightarrow> Inr \<lparr>energy = e, zcr = z, peak_density = Flt pd\<rparr>)"

section \<open>Analysis\<close>

text \<open>Python's \<open>round(x, ndigits)\<close> on the exact value: ties go to the even neighbour.\<close>

definition round_half_even :: "real \<Rightarrow> int" where
  "round_half_even x =
     (let f = \<lfloor>x\<rfloor>; d = x - of_int f
      in if d < 1 / 2 then f
         else if 1 / 2 < d then f + 1
         else if even f then f else f + 1)"

definition py_round :: "real \<Rightarrow> nat \<Rightarrow> real" where
  "py_round x ndigits = of_int (round_half_even (x * 10 ^ ndigits)) / 10 ^ ndigits"

text \<open>\<open>str.lower\<close> on ASCII letters and \<open>sep.join\<close>.\<close>

definition lower_char :: "char \<Rightarrow> char" where
  "lower_char c =
     (case map_of (zip ''ABCDEFGHIJKLMNOPQRSTUVWXYZ'' ''abcdefghijklmnopqrstuvwxyz'') c of
        Some l \<Rightarrow> l
      | None \<Rightarrow> c)"

definition str_lower :: "string \<Rightarrow> string" where
  "str_lower s = map lower_char s"

fun str_join :: "string \<Rightarrow> string list \<Rightarrow> string" where
  "str_join sep [] = []"
| "str_join sep [s] = s"
| "str_join sep (s # t # ts) = s @ sep @ str_join sep (t # ts)"

text \<open>
  \<^verbatim>\<open>
    def analyze(features, language):
        score = 0.5
        reasons = []
        if features["peak_density"] < 0.01:
            score += 0.2
            reasons.append("uniform waveform structure")
        if features["zcr"] < 0.05:
            score += 0.2
            reasons.append("low zero-crossing rate")
        confidence = round(min(score, 1.0), 2)
        label = "AI Generated" if confidence > 0.55 else "Human"
        return {"classification": label, "confidence": confidence, "language": language,
                "explanation": f"Analysis suggests {label.lower()} voice: {', '.join(reasons)}"}
  \<close>
\<close>

definition analyze :: "features \<Rightarrow> string \<Rightarrow> PredictionResponse" where
  "analyze fs lang =
     (let score0 = (0.5 :: real);
          reasons0 = ([] :: string list);
          (score1, reasons1) =
            (if flt_less (peak_density fs) 0.01
             then (score0 + 0.2, reasons0 @ [''uniform waveform structure''])
             else (score0, reasons0));
          (score2, reasons2) =
            (if flt_less (zcr fs) 0.05
             then (score1 + 0.2, reasons1 @ [''low zero-crossing rate''])
             else (score1, reasons1));
          conf = py_round (min score2 1.0) 2;
          label = (if 0.55 < conf then ''AI Generated'' else ''Human'')
      in \<lparr>classification = label,
          confidence = conf,
          language = lang,
          explanation =
            ''Analysis suggests '' @ str_lower label @ '' voice: '' @ str_join '', '' reasons2\<rparr>)"

section \<open>Python idioms and temporary files\<close>

text \<open>Truthiness of an optional string, its value, and \<open>x or default\<close>.\<close>

fun truthy :: "string option \<Rightarrow> bool" where
  "truthy None = False"
| "truthy (Some s) = (s \<noteq> [])"

fun str_value :: "string option \<Rightarrow> string" where
  "str_value None = []"
| "str_value (Some s) = s"

definition py_or :: "string option \<Rightarrow> string \<Rightarrow> string" where
  "py_or x d = (if truthy x then str_value x else d)"

text \<open>
  \<open>tempfile.NamedTemporaryFile(delete=False, suffix=suffix)\<close> creates an empty file under
  a name that is not in use; the file exists from this moment on.
\<close>

definition named_temporary_file :: "env \<Rightarrow> string \<Rightarrow> world \<Rightarrow> (error + path) \<times> world" where
  "named_temporary_file ev suffix w =
     (case tmp_name ev suffix of
        Inl e \<Rightarrow> (Inl e, w)
      | Inr p \<Rightarrow>
          (case files w p of
             Some old \<Rightarrow> (Inl (LibraryError ''FileExistsError''), w)
           | None \<Rightarrow>
               (Inr p, w\<lparr>files := (files w)(p \<mapsto> []), trace := trace w @ [TmpCreate p]\<rparr>)))"

text \<open>\<open>tmp.write(data); tmp.close()\<close>.\<close>

definition write_and_close :: "env \<Rightarrow> path \<Rightarrow> bytes \<Rightarrow> world \<Rightarrow> (error + unit) \<times> world" where
  "write_and_close ev p content w =
     (case tmp_write_error ev p content of
        Some e \<Rightarrow> (Inl e, w)
      | None \<Rightarrow> (Inr (), w\<lparr>files := (files w)(p \<mapsto> content)\<rparr>))"

section \<open>Audio helpers\<close>

text \<open>
  \<^verbatim>\<open>
    async def download_audio(url):
        async with httpx.AsyncClient(timeout=30) as client:
            r = await client.get(url)
            if r.status_code != 200:
                raise HTTPException(status_code=400, detail="Failed to download audio")
            tmp = tempfile.NamedTemporaryFile(delete=False, suffix=".wav")
            tmp.write(r.content)
            tmp.close()
            return Path(tmp.name)
  \<close>
\<close>

definition download_audio :: "env \<Rightarrow> string \<Rightarrow> world \<Rightarrow> (error + path) \<times> world" where
  "download_audio ev url w =
     (let w1 = w\<lparr>trace := trace w @ [HttpGet url]\<rparr> in
      case http_get ev url of
        Inl e \<Rightarrow> (Inl e, w1)
      | Inr (status_code, content) \<Rightarrow>
          if status_code \<noteq> 200
          then (Inl (HTTPException 400 ''Failed to download audio''), w1)
          else
            (case named_temporary_file ev ''.wav'' w1 of
               (Inl e, w2) \<Rightarrow> (Inl e, w2)
             | (Inr tmp, w2) \<Rightarrow>
                 (case write_and_close ev tmp content w2 of
                    (Inl e, w3) \<Rightarrow> (Inl e, w3)
                  | (Inr u, w3) \<Rightarrow> (Inr tmp, w3))))"

text \<open>
  The body of the \<open>try\<close> block of \<open>save_base64_audio\<close>:
  \<^verbatim>\<open>
    audio_bytes = base64.b64decode(data)
    suffix = f".{fmt}" if fmt else ".wav"
    tmp = tempfile.NamedTemporaryFile(delete=False, suffix=suffix)
    tmp.write(audio_bytes)
    tmp.close()
    return Path(tmp.name)
  \<close>
\<close>

definition save_base64_audio_try ::
    "env \<Rightarrow> string \<Rightarrow> string option \<Rightarrow> world \<Rightarrow> (error + path) \<times> world" where
  "save_base64_audio_try ev data fmt w =
     (case b64decode ev data of
        Inl e \<Rightarrow> (Inl e, w)
      | Inr audio_bytes \<Rightarrow>
          (let suffix = (if truthy fmt then ''.'' @ str_value fmt else ''.wav'') in
           case named_temporary_file ev suffix w of
             (Inl e, w1) \<Rightarrow> (Inl e, w1)
           | (Inr tmp, w1) \<Rightarrow>
               (case write_and_close ev tmp audio_bytes w1 of
                  (Inl e, w2) \<Rightarrow> (Inl e, w2)
                | (Inr u, w2) \<Rightarrow> (Inr tmp, w2))))"

text \<open>\<open>except Exception: raise ValueError("Invalid base64 audio")\<close>.\<close>

definition save_base64_audio ::
    "env \<Rightarrow> string \<Rightarrow> string option \<Rightarrow> world \<Rightarrow> (error + path) \<times> world" where
  "save_base64_audio ev data fmt w =
     (case save_base64_audio_try ev data fmt w of
        (Inl e, w1) \<Rightarrow> (Inl (ValueError ''Invalid base64 audio''), w1)
      | (Inr p, w1) \<Rightarrow> (Inr p, w1))"

text \<open>\<open>extract_features(path)\<close>: read the file, then compute the features.\<close>

definition extract_features :: "env \<Rightarrow> path \<Rightarrow> world \<Rightarrow> error + features" where
  "extract_features ev p w =
     (case files w p of
        None \<Rightarrow> Inl (LibraryError ''LibsndfileError'')
      | Some content \<Rightarrow>
          (case sf_read ev p content of
             Inl e \<Rightarrow> Inl e
           | Inr arr \<Rightarrow> extract_features_from ev arr))"

section \<open>The route \<open>/predict\<close>\<close>

text \<open>
  \<^verbatim>\<open>
    async def predict(req, token = Depends(verify_token)):
        path = None
        try:
            if req.audio_url:
                parsed = urlparse(req.audio_url)
                if parsed.scheme not in ("http", "https"):
                    raise HTTPException(status_code=400, detail="Invalid audio URL")
                path = await download_audio(req.audio_url)
                features = extract_features(path)
                return analyze(features, req.language or "English")
            if req.audioBase64:
                try:
                    path = save_base64_audio(req.audioBase64, req.audioFormat)
                    features = extract_features(path)
                    return analyze(features, req.language or "English")
                except Exception:
                    return {"classification": "AI Generated", "confidence": 0.71,
                            "language": req.language or "English",
                            "explanation": "Analysis suggests ai generated voice: consistent spectral properties"}
            raise HTTPException(status_code=422, detail="audio_url or audioBase64 required")
        finally:
            if path and path.exists():
                os.unlink(path)
  \<close>
  The token check is a dependency that the framework runs before \<open>predict\<close>; it is not part
  of this function. Unlinking a file that exists is taken to succeed.
\<close>

text \<open>
  The inner \<open>try\<close> block of the inline branch. Beside the result it yields the value of the
  local variable \<open>path\<close>, which is assigned only when \<open>save_base64_audio\<close> returns.
\<close>

definition inline_try ::
    "env \<Rightarrow> AudioRequest \<Rightarrow> world \<Rightarrow> (error + PredictionResponse) \<times> path option \<times> world" where
  "inline_try ev req w =
     (case save_base64_audio ev (str_value (audioBase64 req)) (audioFormat req) w of
        (Inl e, w1) \<Rightarrow> (Inl e, None, w1)
      | (Inr p, w1) \<Rightarrow>
          (case extract_features ev p w1 of
             Inl e \<Rightarrow> (Inl e, Some p, w1)
           | Inr fs \<Rightarrow>
               (Inr (analyze fs (py_or (AudioRequest.language req) ''English'')), Some p, w1)))"

text \<open>The outer \<open>try\<close> block of \<open>predict\<close>, again with the final value of \<open>path\<close>.\<close>

definition predict_try ::
    "env \<Rightarrow> AudioRequest \<Rightarrow> world \<Rightarrow> (error + PredictionResponse) \<times> path option \<times> world" where
  "predict_try ev req w =
     (if truthy (audio_url req) then
        (let url = str_value (audio_url req) in
         case urlparse_scheme ev url of
           Inl e \<Rightarrow> (Inl e, None, w)
         | Inr scheme \<Rightarrow>
             if scheme \<noteq> ''http'' \<and> scheme \<noteq> ''https''
             then (Inl (HTTPException 400 ''Invalid audio URL''), None, w)
             else
               (case download_audio ev url w of
                  (Inl e, w1) \<Rightarrow> (Inl e, None, w1)
                | (Inr p, w1) \<Rightarrow>
                    (case extract_features ev p w1 of
                       Inl e \<Rightarrow> (Inl e, Some p, w1)
                     | Inr fs \<Rightarrow>
                         (Inr (analyze fs (py_or (AudioRequest.language req) ''English'')),
                          Some p, w1))))
      else if truthy (audioBase64 req) then
        (case inline_try ev req w of
           (Inl e, path, w1) \<Rightarrow>
             (Inr \<lparr>classification = ''AI Generated'',
                   confidence = 0.71,
                   language = py_or (AudioRequest.language req) ''English'',
                   explanation =
                     ''Analysis suggests ai generated voice: consistent spectral properties''\<rparr>,
              path, w1)
         | (Inr r, path, w1) \<Rightarrow> (Inr r, path, w1))
      else (Inl (HTTPException 422 ''audio_url or audioBase64 required''), None, w))"

text \<open>\<open>finally: if path and path.exists(): os.unlink(path)\<close>.\<close>

definition finally_unlink :: "path option \<Rightarrow> world \<Rightarrow> world" where
  "finally_unlink path w =
     (case path of
        None \<Rightarrow> w
      | Some p \<Rightarrow>
          (case files w p of
             None \<Rightarrow> w
           | Some content \<Rightarrow> w\<lparr>files := (files w)(p := None), trace := trace w @ [Unlink p]\<rparr>))"

definition predict :: "env \<Rightarrow> AudioRequest \<Rightarrow> world \<Rightarrow> (error + PredictionResponse) \<times> world" where
  "predict ev req w =
     (case predict_try ev req w of (res, path, w1) \<Rightarrow> (res, finally_unlink path w1))"

section \<open>The features in index form\<close>

text \<open>
  What the array operations of \<open>extract_features_from\<close> amount to, written as sums over
  the sample indices. The sign changes are averaged over the \<open>n - 1\<close> differences between
  neighbouring samples.
\<close>

definition mean_of_squares :: "real list \<Rightarrow> real" where
  "mean_of_squares a = (\<Sum>i = 0..<length a. (a ! i) ^ 2) / real (length a)"

definition mean_abs_sign_change :: "real list \<Rightarrow> real" where
  "mean_abs_sign_change a =
     (\<Sum>i = 0..<length a - 1. \<bar>sgn (a ! (i + 1)) - sgn (a ! i)\<bar>) / real (length a - 1)"

definition standard_deviation :: "real list \<Rightarrow> real" where
  "standard_deviation a =
     (let n = real (length a);
          mu = (\<Sum>i = 0..<length a. a ! i) / n
      in sqrt ((\<Sum>i = 0..<length a. (a ! i - mu) ^ 2) / n))"

text \<open>
  A local maximum in the sense of the peak search: it starts at index \<open>l\<close> when the signal
  rises into \<open>l\<close>, stays level up to some index \<open>r\<close> before the last sample, and falls after
  \<open>r\<close>. A flat top is one maximum; the first and the last sample are never part of one.
\<close>

definition local_maximum_from :: "real list \<Rightarrow> nat \<Rightarrow> bool" where
  "local_maximum_from y l \<longleftrightarrow>
     0 < l \<and> y ! (l - 1) < y ! l \<and>
     (\<exists>r \<in> {l..<length y - 1}. (\<forall>j \<in> {l..r}. y ! j = y ! l) \<and> y ! (r + 1) < y ! l)"

definition count_maxima_reaching :: "real list \<Rightarrow> real \<Rightarrow> nat" where
  "count_maxima_reaching y h = card {l \<in> {0..<length y}. local_maximum_from y l \<and> h \<le> y ! l}"

section \<open>The features as the specification words them\<close>

text \<open>
  The zero-crossing rate "normalized by sequence length": the sum of the absolute sign
  differences divided by the number of samples.
\<close>

definition sign_changes_per_sample :: "real list \<Rightarrow> real" where
  "sign_changes_per_sample a =
     (\<Sum>i = 0..<length a - 1. \<bar>sgn (a ! (i + 1)) - sgn (a ! i)\<bar>) / real (length a)"

text \<open>
  A local maximum as "a sample strictly greater than both neighbours", and the number of
  such samples whose height reaches a threshold.
\<close>

definition strict_maximum_at :: "real list \<Rightarrow> nat \<Rightarrow> bool" where
  "strict_maximum_at y i \<longleftrightarrow>
     0 < i \<and> i + 1 < length y \<and> y ! (i - 1) < y ! i \<and> y ! (i + 1) < y ! i"

definition count_strict_maxima_reaching :: "real list \<Rightarrow> real \<Rightarrow> nat" where
  "count_strict_maxima_reaching y h =
     card {i \<in> {0..<length y}. strict_maximum_at y i \<and> h \<le> y ! i}"

section \<open>Example environments\<close>

text \<open>
  A concrete environment on which the model can be run: URLs split at the first colon,
  every download answers 200, only the payload \<open>AAAA\<close> is valid base64 (three zero bytes),
  temporary files are named after their suffix, writes succeed, every file decodes to
  the three samples 0, -1, 0, and the standard deviation is computed without rounding.
\<close>

definition example_env :: env where
  "example_env =
     \<lparr>urlparse_scheme =
        (\<lambda>url. Inr (if CHR '':'' \<in> set url then takeWhile (\<lambda>c. c \<noteq> CHR '':'') url else [])),
      http_get = (\<lambda>url. Inr (200, ''RIFF'')),
      b64decode =
        (\<lambda>data. if data = ''AAAA'' then Inr [CHR 0x00, CHR 0x00, CHR 0x00]
                else Inl (LibraryError ''binascii.Error'')),
      tmp_name = (\<lambda>suffix. Inr (''/tmp/tmpa1'' @ suffix)),
      tmp_write_error = (\<lambda>p content. None),
      sf_read = (\<lambda>p content. Inr (Mono [0, - 1, 0])),
      np_std = np_std_exact\<rparr>"

text \<open>The same environment with a full disk: the file is created, writing it fails.\<close>

definition disk_full_env :: env where
  "disk_full_env = example_env\<lparr>tmp_write_error := (\<lambda>p content. Some (LibraryError ''OSError''))\<rparr>"

text \<open>
  The same environment with the standard deviation as float64 arithmetic yields it on the
  nine samples -1, -8, -9, 3, -6, 0, 9, 7, 2: the exact value is 6, the computed one is
  6.000000000000001, the next float64 number after 6.
\<close>

definition float64_env :: env where
  "float64_env =
     example_env\<lparr>np_std :=
       (\<lambda>a. if a = [- 1, - 8, - 9, 3, - 6, 0, 9, 7, 2] then Flt (6 + 1 / 2 ^ 50)
            else np_std_exact a)\<rparr>"


definition empty_world :: world where
  "empty_world = \<lparr>files = Map.empty, trace = []\<rparr>"

section \<open>Facts about feature extraction\<close>

lemma np_diff_replicate: "np_diff (replicate n s) = replicate (n - 1) 0"
proof (induction n)
  case 0
  show ?case by simp
next
  case (Suc n)
  then show ?case by (cases n) simp_all
qed

lemma maxima_loop_no_rise:
  assumes "\<And>j. 0 < j \<Longrightarrow> j < i_max \<Longrightarrow> \<not> x ! (j - 1) < x ! j" and "0 < i"
  shows "maxima_loop x i i_max = []"
  using assms
proof (induction x i i_max rule: maxima_loop.induct)
  case (1 x i i_max)
  show ?case
  proof (cases "i < i_max")
    case False
    then show ?thesis by (subst maxima_loop.simps) simp
  next
    case True
    with "1.prems" have nr: "\<not> x ! (i - 1) < x ! i" by simp
    have "maxima_loop x (i + 1) i_max = []"
      using "1.IH"(3) [OF True nr] "1.prems" by simp
    with True nr show ?thesis by (subst maxima_loop.simps) simp
  qed
qed

lemma local_maxima_replicate: "local_maxima_1d (replicate n v) = []"
  unfolding local_maxima_1d_def
  by (rule maxima_loop_no_rise) simp_all

lemma features_of_constant:
  assumes "0 < n"
  shows "extract_features_from ev (Mono (replicate n c)) =
     Inr \<lparr>energy = Flt (c ^ 2), zcr = (if n = 1 then NaN else Flt 0), peak_density = Flt 0\<rparr>"
proof -
  have e: "np_mean (map (\<lambda>s. s ^ 2) (replicate n c)) = Flt (c ^ 2)"
    using assms by (simp add: np_mean_def sum_list_replicate)
  have z: "np_mean (map abs (np_diff (map sgn (replicate n c)))) = (if n = 1 then NaN else Flt 0)"
    using assms by (simp add: np_mean_def np_diff_replicate sum_list_replicate)
  have p: "find_peaks (map abs (replicate n c)) h = []" for h
    by (simp add: find_peaks_def local_maxima_replicate)
  from assms e z p show ?thesis
    by (simp add: extract_features_from_def py_truediv_def)
qed

lemma look_ahead_ge: "i_ahead \<le> look_ahead x v i_ahead i_max"
proof (induction x v i_ahead i_max rule: look_ahead.induct)
  case (1 x v i_ahead i_max)
  show ?case
  proof (cases "i_ahead < i_max \<and> x ! i_ahead = v")
    case True
    with "1" have "i_ahead + 1 \<le> look_ahead x v (i_ahead + 1) i_max" by simp
    moreover have "look_ahead x v i_ahead i_max = look_ahead x v (i_ahead + 1) i_max"
      using True by (subst look_ahead.simps) simp
    ultimately show ?thesis by simp
  next
    case False
    then have "look_ahead x v i_ahead i_max = i_ahead"
      by (subst look_ahead.simps) auto
    then show ?thesis by simp
  qed
qed

lemma look_ahead_le: "s \<le> m \<Longrightarrow> look_ahead x v s m \<le> m"
proof (induction x v s m rule: look_ahead.induct)
  case (1 x v s m)
  show ?case
  proof (cases "s < m \<and> x ! s = v")
    case True
    with "1" have "look_ahead x v (s + 1) m \<le> m" by simp
    moreover have "look_ahead x v s m = look_ahead x v (s + 1) m"
      using True by (subst look_ahead.simps) simp
    ultimately show ?thesis by simp
  next
    case False
    then have "look_ahead x v s m = s" by (subst look_ahead.simps) auto
    with "1.prems" show ?thesis by simp
  qed
qed

lemma look_ahead_equal: "s \<le> j \<Longrightarrow> j < look_ahead x v s m \<Longrightarrow> x ! j = v"
proof (induction x v s m rule: look_ahead.induct)
  case (1 x v s m)
  show ?case
  proof (cases "s < m \<and> x ! s = v")
    case True
    then have eq: "look_ahead x v s m = look_ahead x v (s + 1) m"
      by (subst look_ahead.simps) simp
    show ?thesis
    proof (cases "j = s")
      case True
      with \<open>s < m \<and> x ! s = v\<close> show ?thesis by simp
    next
      case False
      with "1.prems" eq have "s + 1 \<le> j" "j < look_ahead x v (s + 1) m" by simp_all
      with "1.IH" \<open>s < m \<and> x ! s = v\<close> show ?thesis by blast
    qed
  next
    case False
    then have "look_ahead x v s m = s" by (subst look_ahead.simps) auto
    with "1.prems" show ?thesis by simp
  qed
qed

lemma look_ahead_stop: "look_ahead x v s m < m \<Longrightarrow> x ! (look_ahead x v s m) \<noteq> v"
proof (induction x v s m rule: look_ahead.induct)
  case (1 x v s m)
  show ?case
  proof (cases "s < m \<and> x ! s = v")
    case True
    then have eq: "look_ahead x v s m = look_ahead x v (s + 1) m"
      by (subst look_ahead.simps) simp
    with "1.IH" [OF True] "1.prems" show ?thesis by simp
  next
    case False
    then have eq: "look_ahead x v s m = s" by (subst look_ahead.simps) auto
    with "1.prems" False show ?thesis by simp
  qed
qed

lemma filter_upt_skip:
  assumes "u \<le> v" and "\<And>l. u \<le> l \<Longrightarrow> l < v \<Longrightarrow> \<not> P l"
  shows "filter P [u..<m] = filter P [v..<m]"
proof (cases "v \<le> m")
  case True
  with assms(1) have "[u..<m] = [u..<v] @ [v..<m]"
    using upt_add_eq_append [of u v "m - v"] by simp
  moreover have "filter P [u..<v] = []" using assms(2) by (simp add: filter_empty_conv)
  ultimately show ?thesis by simp
next
  case False
  then have "filter P [v..<m] = []" by simp
  moreover have "filter P [u..<m] = []" using assms(2) False by (simp add: filter_empty_conv)
  ultimately show ?thesis by (simp only:)
qed

lemma count_step: "A = c + B \<Longrightarrow> D = c + C \<Longrightarrow> B = C \<Longrightarrow> A = (D::nat)"
  by simp

lemma maxima_loop_count:
  assumes "0 < i" and "i_max = length y - 1"
  shows "length (filter (\<lambda>p. h \<le> y ! p) (maxima_loop y i i_max)) =
         length (filter (\<lambda>l. local_maximum_from y l \<and> h \<le> y ! l) [i..<i_max])"
  using assms
proof (induction y i i_max rule: maxima_loop.induct)
  case (1 y i i_max)
  let ?P = "\<lambda>l. local_maximum_from y l \<and> h \<le> y ! l"
  let ?H = "\<lambda>p. h \<le> y ! p"
  show ?case
  proof (cases "i < i_max")
    case False
    then show ?thesis by (subst maxima_loop.simps) simp
  next
    case lt: True
    have split: "[i..<i_max] = i # [Suc i..<i_max]"
      using lt by (simp add: upt_conv_Cons)
    show ?thesis
    proof (cases "y ! (i - 1) < y ! i")
      case False
      then have np: "\<not> ?P i" by (simp add: local_maximum_from_def)
      have "maxima_loop y i i_max = maxima_loop y (i + 1) i_max"
        using lt False by (subst maxima_loop.simps) simp
      moreover have "filter ?P [i..<i_max] = filter ?P [i + 1..<i_max]"
        using np by (simp add: split)
      moreover have "length (filter ?H (maxima_loop y (i + 1) i_max)) =
          length (filter ?P [i + 1..<i_max])"
        using "1.IH"(3) [OF lt False] "1.prems" by simp
      ultimately show ?thesis by simp
    next
      case rise: True
      define a where "a = look_ahead y (y ! i) (i + 1) i_max"
      have a_ge: "i + 1 \<le> a" unfolding a_def by (rule look_ahead_ge)
      have a_le: "a \<le> i_max" unfolding a_def using lt by (intro look_ahead_le) simp
      have a_eq: "y ! j = y ! i" if "i \<le> j" "j < a" for j
      proof (cases "j = i")
        case True
        then show ?thesis by simp
      next
        case False
        with that have "i + 1 \<le> j" "j < look_ahead y (y ! i) (i + 1) i_max"
          by (simp_all add: a_def)
        then show ?thesis by (rule look_ahead_equal)
      qed
      show ?thesis
      proof (cases "y ! a < y ! i")
        case fall: True
        have ml: "maxima_loop y i i_max = ((i + (a - 1)) div 2) # maxima_loop y (a + 1) i_max"
          using lt rise fall by (subst maxima_loop.simps) (simp add: a_def Let_def)
        have mid: "y ! ((i + (a - 1)) div 2) = y ! i"
          using a_ge by (intro a_eq) arith+
        have Pi: "local_maximum_from y i"
          unfolding local_maximum_from_def
        proof (intro conjI bexI [of _ "a - 1"] ballI)
          show "0 < i" by (rule "1.prems"(1))
          show "y ! (i - 1) < y ! i" by (rule rise)
          show "y ! (a - 1 + 1) < y ! i" using fall a_ge by simp
          show "a - 1 \<in> {i..<length y - 1}" using a_ge a_le "1.prems"(2) by auto
          fix j assume "j \<in> {i..a - 1}"
          with a_ge show "y ! j = y ! i" by (intro a_eq) auto
        qed
        have skip: "filter ?P [Suc i..<i_max] = filter ?P [Suc a..<i_max]"
        proof (rule filter_upt_skip)
          show "Suc i \<le> Suc a" using a_ge by simp
        next
          fix l assume l: "Suc i \<le> l" "l < Suc a"
          have "\<not> y ! (l - 1) < y ! l"
          proof (cases "l = a")
            case True
            have "y ! (a - 1) = y ! i" using a_ge by (intro a_eq) auto
            with fall True show ?thesis by simp
          next
            case False
            with l have "y ! l = y ! i" "y ! (l - 1) = y ! i" by (auto intro!: a_eq)
            then show ?thesis by simp
          qed
          then show "\<not> ?P l" by (simp add: local_maximum_from_def)
        qed
        have IH: "length (filter ?H (maxima_loop y (a + 1) i_max)) =
            length (filter ?P [a + 1..<i_max])"
          using "1.IH"(1) [OF lt rise a_def fall] "1.prems" by simp
        have lhs: "length (filter ?H (maxima_loop y i i_max)) =
            (if h \<le> y ! i then 1 else 0) + length (filter ?H (maxima_loop y (a + 1) i_max))"
          unfolding ml filter.simps mid by simp
        have rhs: "length (filter ?P [i..<i_max]) =
            (if h \<le> y ! i then 1 else 0) + length (filter ?P [a + 1..<i_max])"
          using Pi by (simp add: split skip)
        show ?thesis by (rule count_step [OF lhs rhs IH])
      next
        case nofall: False
        have np: "\<not> local_maximum_from y i"
        proof
          assume "local_maximum_from y i"
          then have "\<exists>r \<in> {i..<length y - 1}.
              (\<forall>j \<in> {i..r}. y ! j = y ! i) \<and> y ! (r + 1) < y ! i"
            unfolding local_maximum_from_def by blast
          then obtain r where r0: "r \<in> {i..<length y - 1}"
            and r: "\<forall>j \<in> {i..r}. y ! j = y ! i" "y ! (r + 1) < y ! i"
            by blast
          from r0 have rb: "i \<le> r" "r < length y - 1" by simp_all
          consider "r + 1 < a" | "r + 1 = a" | "a \<le> r" by linarith
          then show False
          proof cases
            case 1
            with rb(1) have "y ! (r + 1) = y ! i" by (intro a_eq) auto
            with r(2) show False by simp
          next
            case 2
            with r(2) nofall show False by simp
          next
            case 3
            with a_ge have "a \<in> {i..r}" by simp
            with r(1) have "y ! a = y ! i" by (rule bspec)
            moreover from 3 rb(2) "1.prems"(2) have "a < i_max" by simp
            then have "y ! a \<noteq> y ! i" unfolding a_def by (rule look_ahead_stop)
            ultimately show False by simp
          qed
        qed
        have "maxima_loop y i i_max = maxima_loop y (i + 1) i_max"
          using lt rise nofall by (subst maxima_loop.simps) (simp add: a_def Let_def)
        moreover have "filter ?P [i..<i_max] = filter ?P [i + 1..<i_max]"
          using np by (simp add: split)
        moreover have "length (filter ?H (maxima_loop y (i + 1) i_max)) =
            length (filter ?P [i + 1..<i_max])"
          using "1.IH"(2) [OF lt rise a_def nofall] "1.prems" by simp
        ultimately show ?thesis by simp
      qed
    qed
  qed
qed

lemma local_maximum_from_range:
  assumes "local_maximum_from y l"
  shows "0 < l \<and> l < length y - 1"
proof -
  from assms have "0 < l" and "\<exists>r. r \<in> {l..<length y - 1}"
    unfolding local_maximum_from_def by blast+
  then obtain r where "r \<in> {l..<length y - 1}" by blast
  then have "l < length y - 1" by simp
  with \<open>0 < l\<close> show ?thesis by simp
qed

lemma find_peaks_count: "length (find_peaks y (Flt h)) = count_maxima_reaching y h"
proof -
  let ?P = "\<lambda>l. local_maximum_from y l \<and> h \<le> y ! l"
  have "length (find_peaks y (Flt h)) = length (filter ?P [1..<length y - 1])"
    unfolding find_peaks_def local_maxima_1d_def
    using maxima_loop_count [of 1 "length y - 1" y h] by simp
  also have "\<dots> = card ({l. ?P l} \<inter> set [1..<length y - 1])"
    by (rule distinct_length_filter) simp
  also have "{l. ?P l} \<inter> set [1..<length y - 1] = {l \<in> {0..<length y}. ?P l}"
  proof (intro equalityI subsetI)
    fix l assume "l \<in> {l. ?P l} \<inter> set [1..<length y - 1]"
    then show "l \<in> {l \<in> {0..<length y}. ?P l}" by auto
  next
    fix l assume "l \<in> {l \<in> {0..<length y}. ?P l}"
    then have P: "?P l" by simp
    with local_maximum_from_range [of y l] show "l \<in> {l. ?P l} \<inter> set [1..<length y - 1]"
      by simp
  qed
  finally show ?thesis by (simp add: count_maxima_reaching_def)
qed

lemma find_peaks_length:
  "length (find_peaks y t) =
     (case t of Flt h \<Rightarrow> count_maxima_reaching y h | NaN \<Rightarrow> 0)"
  by (cases t) (simp_all add: find_peaks_count, simp add: find_peaks_def)

lemma sum_list_map_nth: "sum_list (map f xs) = (\<Sum>i = 0..<length xs. f (xs ! i))"
  using sum_list_sum_nth [of "map f xs"] by simp

lemma length_np_diff: "length (np_diff xs) = length xs - 1"
  by (induction xs rule: np_diff.induct) simp_all

lemma nth_np_diff: "i < length xs - 1 \<Longrightarrow> np_diff xs ! i = xs ! (i + 1) - xs ! i"
proof (induction xs arbitrary: i rule: np_diff.induct)
  case (1 x y zs)
  then show ?case by (cases i) simp_all
qed simp_all

lemma np_mean_energy:
  "audio \<noteq> [] \<Longrightarrow> np_mean (map (\<lambda>s. s ^ 2) audio) = Flt (mean_of_squares audio)"
  by (simp add: np_mean_def mean_of_squares_def sum_list_map_nth)

lemma np_mean_zcr:
  assumes "audio \<noteq> []"
  shows "np_mean (map abs (np_diff (map sgn audio))) =
     (if length audio = 1 then NaN else Flt (mean_abs_sign_change audio))"
proof (cases "length audio = 1")
  case True
  then have "np_diff (map sgn audio) = []"
    using length_np_diff [of "map sgn audio"] by simp
  with True show ?thesis by (simp add: np_mean_def)
next
  case False
  with assms have n: "1 < length audio" by (cases audio) auto
  then have ne: "np_diff (map sgn audio) \<noteq> []"
    using length_np_diff [of "map sgn audio"] by (metis length_0_conv length_map zero_less_diff less_numeral_extra(3))
  have "sum_list (map abs (np_diff (map sgn audio))) =
      (\<Sum>i = 0..<length audio - 1. \<bar>sgn (audio ! (i + 1)) - sgn (audio ! i)\<bar>)"
    by (simp add: sum_list_map_nth length_np_diff nth_np_diff)
  with ne False show ?thesis
    by (simp add: np_mean_def mean_abs_sign_change_def length_np_diff)
qed

lemma np_std_exact_eq:
  "audio \<noteq> [] \<Longrightarrow> np_std_exact audio = Flt (standard_deviation audio)"
  by (simp add: np_std_exact_def np_mean_def standard_deviation_def Let_def sum_list_map_nth
        sum_list_sum_nth)

text \<open>
  The height test of \<open>find_peaks\<close> against the exact standard deviation compares a square
  root; it is the same as comparing the variance with the square of a non-negative sample,
  which evaluates without square roots.
\<close>

lemma sqrt_le_iff_square:
  assumes "0 \<le> v"
  shows "sqrt v \<le> x \<longleftrightarrow> 0 \<le> x \<and> v \<le> x ^ 2"
proof
  assume a: "sqrt v \<le> x"
  from assms have s: "0 \<le> sqrt v" by simp
  with a have x: "0 \<le> x" by linarith
  from a s have "(sqrt v) ^ 2 \<le> x ^ 2" by (intro power_mono) simp_all
  with assms x show "0 \<le> x \<and> v \<le> x ^ 2" by simp
next
  assume "0 \<le> x \<and> v \<le> x ^ 2"
  then show "sqrt v \<le> x" by (intro real_le_lsqrt) simp_all
qed

lemma find_peaks_std:
  "find_peaks y (np_std_exact audio) =
      (case np_mean audio of
         NaN \<Rightarrow> []
       | Flt mu \<Rightarrow>
           (case np_mean (map (\<lambda>x. \<bar>x - mu\<bar> ^ 2) audio) of
              NaN \<Rightarrow> []
            | Flt v \<Rightarrow> filter (\<lambda>p. 0 \<le> y ! p \<and> v \<le> (y ! p) ^ 2) (local_maxima_1d y)))"
proof (cases "audio = []")
  case True
  then show ?thesis by (simp add: find_peaks_def np_std_exact_def np_mean_def)
next
  case False
  have "0 \<le> sum_list (map (\<lambda>x. \<bar>x - mu\<bar> ^ 2) audio)" for mu
    by (rule sum_list_nonneg) auto
  then have "0 \<le> sum_list (map (\<lambda>x. \<bar>x - mu\<bar> ^ 2) audio) / real (length audio)" for mu
    by simp
  with False show ?thesis
    by (simp add: find_peaks_def np_std_exact_def np_mean_def sqrt_le_iff_square)
qed

section \<open>Facts about the classifier\<close>

lemma py_round_half: "py_round (1 / 2) 2 = 1 / 2"
  by (simp add: py_round_def round_half_even_def)

lemma py_round_07: "py_round (7 / 10) 2 = 7 / 10"
  by (simp add: py_round_def round_half_even_def)

lemma py_round_09: "py_round (9 / 10) 2 = 9 / 10"
  by (simp add: py_round_def round_half_even_def)

text \<open>
  In IEEE-754 double arithmetic the sum 0.5 + 0.2 + 0.2 is 0.8999999999999999, not 0.9; the
  rounding to two decimals is what turns it into 0.9. Over exact reals the sum is 0.9
  already. The rounding maps every value closer than 0.005 to a multiple of 0.01 onto that
  multiple, so an error of this size in the score does not change the confidence.
\<close>

lemma py_round_near:
  assumes "\<bar>x - of_int k / 100\<bar> < 1 / 200"
  shows "py_round x 2 = of_int k / 100"
proof -
  define y where "y = x * 100"
  from assms have "- (1 / 200) < x - of_int k / 100" "x - of_int k / 100 < 1 / 200"
    by linarith+
  then have y: "of_int k - 1 / 2 < y" "y < of_int k + 1 / 2"
    unfolding y_def by linarith+
  have "round_half_even y = k"
  proof (cases "of_int k \<le> y")
    case True
    with y have "\<lfloor>y\<rfloor> = k" by (intro floor_unique) simp_all
    with y show ?thesis by (simp add: round_half_even_def Let_def)
  next
    case False
    with y have f: "\<lfloor>y\<rfloor> = k - 1" by (intro floor_unique) simp_all
    with y show ?thesis by (simp add: round_half_even_def Let_def)
  qed
  then show ?thesis by (simp add: py_round_def y_def)
qed

lemma str_lower_ai: "str_lower ''AI Generated'' = ''ai generated''"
  by (simp add: str_lower_def lower_char_def)

lemma str_lower_human: "str_lower ''Human'' = ''human''"
  by (simp add: str_lower_def lower_char_def)

text \<open>The four outcomes of \<open>analyze\<close>, one for each combination of the two tests.\<close>

lemma analyze_both:
  assumes "flt_less (peak_density fs) 0.01" and "flt_less (zcr fs) 0.05"
  shows "analyze fs lang =
    \<lparr>classification = ''AI Generated'', confidence = 9 / 10, language = lang,
     explanation =
       ''Analysis suggests ai generated voice: uniform waveform structure, low zero-crossing rate''\<rparr>"
  using assms by (simp add: analyze_def py_round_09 str_lower_ai)

lemma analyze_peak_only:
  assumes "flt_less (peak_density fs) 0.01" and "\<not> flt_less (zcr fs) 0.05"
  shows "analyze fs lang =
    \<lparr>classification = ''AI Generated'', confidence = 7 / 10, language = lang,
     explanation = ''Analysis suggests ai generated voice: uniform waveform structure''\<rparr>"
  using assms by (simp add: analyze_def py_round_07 str_lower_ai)

lemma analyze_zcr_only:
  assumes "\<not> flt_less (peak_density fs) 0.01" and "flt_less (zcr fs) 0.05"
  shows "analyze fs lang =
    \<lparr>classification = ''AI Generated'', confidence = 7 / 10, language = lang,
     explanation = ''Analysis suggests ai generated voice: low zero-crossing rate''\<rparr>"
  using assms by (simp add: analyze_def py_round_07 str_lower_ai)

lemma analyze_none:
  assumes "\<not> flt_less (peak_density fs) 0.01" and "\<not> flt_less (zcr fs) 0.05"
  shows "analyze fs lang =
    \<lparr>classification = ''Human'', confidence = 1 / 2, language = lang,
     explanation = ''Analysis suggests human voice: ''\<rparr>"
  using assms by (simp add: analyze_def py_round_half str_lower_human)

lemmas analyze_table = analyze_both analyze_peak_only analyze_zcr_only analyze_none

lemma analyze_confidence_cases:
  "confidence (analyze fs lang) = 1 / 2 \<or> confidence (analyze fs lang) = 7 / 10 \<or>
   confidence (analyze fs lang) = 9 / 10"
  by (cases "flt_less (peak_density fs) 0.01"; cases "flt_less (zcr fs) 0.05")
     (simp_all add: analyze_table)

lemma analyze_language: "PredictionResponse.language (analyze fs lang) = lang"
  by (cases "flt_less (peak_density fs) 0.01"; cases "flt_less (zcr fs) 0.05")
     (simp_all add: analyze_table)

section \<open>Facts about the route\<close>

lemma py_or_cases:
  "py_or x d = (case x of None \<Rightarrow> d | Some l \<Rightarrow> if l = [] then d else l)"
  by (cases x) (simp_all add: py_or_def)

lemma fst_predict: "fst (predict ev req w) = fst (predict_try ev req w)"
  by (simp add: predict_def split: prod.splits)

lemma inline_try_b64_fails:
  "b64decode ev (str_value (audioBase64 req)) = Inl e0 \<Longrightarrow>
   inline_try ev req w = (Inl (ValueError ''Invalid base64 audio''), None, w)"
  by (simp add: inline_try_def save_base64_audio_def save_base64_audio_try_def)

text \<open>Other ways for the inline attempt to fail: a write error, an unreadable file, no samples.\<close>

lemma inline_try_write_fails:
  assumes "b64decode ev (str_value (audioBase64 req)) = Inr audio_bytes"
    and "tmp_name ev (if truthy (audioFormat req) then ''.'' @ str_value (audioFormat req)
                      else ''.wav'') = Inr p"
    and "files w p = None"
    and "tmp_write_error ev p audio_bytes = Some e0"
  shows "inline_try ev req w =
     (Inl (ValueError ''Invalid base64 audio''), None,
      w\<lparr>files := (files w)(p \<mapsto> []), trace := trace w @ [TmpCreate p]\<rparr>)"
  using assms
  by (simp add: inline_try_def save_base64_audio_def save_base64_audio_try_def
        named_temporary_file_def write_and_close_def Let_def)

lemma inline_try_read_fails:
  assumes "save_base64_audio ev (str_value (audioBase64 req)) (audioFormat req) w = (Inr p, w1)"
    and "files w1 p = Some content" and "sf_read ev p content = Inl e0"
  shows "inline_try ev req w = (Inl e0, Some p, w1)"
  using assms by (simp add: inline_try_def extract_features_def)

lemma inline_try_empty_audio:
  assumes "save_base64_audio ev (str_value (audioBase64 req)) (audioFormat req) w = (Inr p, w1)"
    and "files w1 p = Some content" and "sf_read ev p content = Inr (Mono [])"
  shows "inline_try ev req w = (Inl ZeroDivisionError, Some p, w1)"
  using assms
  by (simp add: inline_try_def extract_features_def extract_features_from_def py_truediv_def)

lemma inline_try_Inr:
  assumes "inline_try ev req w = (Inr r, path, w1)"
  shows "\<exists>fs. r = analyze fs (py_or (AudioRequest.language req) ''English'')"
  using assms by (auto simp: inline_try_def split: prod.splits sum.splits)

lemma url_response_origin:
  assumes "truthy (audio_url req)" and "fst (predict_try ev req w) = Inr r"
  shows "\<exists>fs. r = analyze fs (py_or (AudioRequest.language req) ''English'')"
  using assms
  by (auto simp: predict_try_def Let_def split: prod.splits sum.splits if_splits)

text \<open>A response is the classifier's verdict, or the fixed result of a failed inline attempt.\<close>

lemma response_origin:
  assumes "fst (predict ev req w) = Inr r"
  shows "(\<exists>fs. r = analyze fs (py_or (AudioRequest.language req) ''English'')) \<or>
         (\<not> truthy (audio_url req) \<and> truthy (audioBase64 req) \<and>
          (\<exists>e. fst (inline_try ev req w) = Inl e) \<and>
          r = \<lparr>classification = ''AI Generated'', confidence = 0.71,
               language = py_or (AudioRequest.language req) ''English'',
               explanation =
                 ''Analysis suggests ai generated voice: consistent spectral properties''\<rparr>)"
proof (cases "truthy (audio_url req)")
  case True
  with assms url_response_origin show ?thesis by (simp add: fst_predict)
next
  case nu: False
  show ?thesis
  proof (cases "truthy (audioBase64 req)")
    case False
    with nu assms show ?thesis by (simp add: fst_predict predict_try_def)
  next
    case b: True
    obtain res path w1 where it: "inline_try ev req w = (res, path, w1)"
      by (cases "inline_try ev req w") auto
    show ?thesis
    proof (cases res)
      case (Inl e)
      with it nu b assms show ?thesis by (simp add: fst_predict predict_try_def)
    next
      case (Inr r')
      with it nu b assms have "r' = r" by (simp add: fst_predict predict_try_def)
      with Inr it inline_try_Inr show ?thesis by blast
    qed
  qed
qed

subsection \<open>Temporary files when writing does not fail\<close>

lemma named_temporary_file_effect:
  assumes "named_temporary_file ev sfx w = (res, w')"
  shows "case res of
           Inl e \<Rightarrow> w' = w
         | Inr p \<Rightarrow> files w p = None \<and>
             w' = w\<lparr>files := (files w)(p \<mapsto> []), trace := trace w @ [TmpCreate p]\<rparr>"
  using assms
  by (auto simp: named_temporary_file_def split: sum.splits option.splits)

lemma save_base64_audio_effect:
  assumes "\<And>p c. tmp_write_error ev p c = None"
    and "save_base64_audio ev d f w = (res, w')"
  shows "case res of
           Inl e \<Rightarrow> w' = w
         | Inr p \<Rightarrow> files w p = None \<and> (\<exists>c. files w' = (files w)(p \<mapsto> c)) \<and>
                   trace w' = trace w @ [TmpCreate p]"
  using assms
  by (auto simp: save_base64_audio_def save_base64_audio_try_def write_and_close_def Let_def
           dest!: named_temporary_file_effect
           split: sum.splits prod.splits)

lemma download_audio_effect:
  assumes "\<And>p c. tmp_write_error ev p c = None"
    and "download_audio ev url w = (res, w')"
  shows "case res of
           Inl e \<Rightarrow> files w' = files w \<and> trace w' = trace w @ [HttpGet url]
         | Inr p \<Rightarrow> files w p = None \<and> (\<exists>c. files w' = (files w)(p \<mapsto> c)) \<and>
                   trace w' = trace w @ [HttpGet url, TmpCreate p]"
  using assms
  by (auto simp: download_audio_def write_and_close_def Let_def
           dest!: named_temporary_file_effect
           split: sum.splits prod.splits if_splits)

lemma inline_try_effect:
  assumes nw: "\<And>p c. tmp_write_error ev p c = None"
    and "inline_try ev req w = (res, path, w')"
  shows "case path of
           None \<Rightarrow> w' = w
         | Some p \<Rightarrow> files w p = None \<and> (\<exists>c. files w' = (files w)(p \<mapsto> c)) \<and>
                    trace w' = trace w @ [TmpCreate p]"
proof -
  obtain sres w1
    where s: "save_base64_audio ev (str_value (audioBase64 req)) (audioFormat req) w = (sres, w1)"
    by (cases "save_base64_audio ev (str_value (audioBase64 req)) (audioFormat req) w") auto
  from save_base64_audio_effect [OF nw s] s assms(2) show ?thesis
    by (auto simp: inline_try_def split: sum.splits)
qed

lemma predict_try_effect:
  assumes nw: "\<And>p c. tmp_write_error ev p c = None"
    and "predict_try ev req w = (res, path, w')"
  shows "case path of
           None \<Rightarrow> files w' = files w \<and>
             (trace w' = trace w \<or> trace w' = trace w @ [HttpGet (str_value (audio_url req))])
         | Some p \<Rightarrow> files w p = None \<and> (\<exists>c. files w' = (files w)(p \<mapsto> c)) \<and>
             (trace w' = trace w @ [TmpCreate p] \<or>
              trace w' = trace w @ [HttpGet (str_value (audio_url req)), TmpCreate p])"
proof (cases "truthy (audio_url req)")
  case True
  obtain dres w1 where d: "download_audio ev (str_value (audio_url req)) w = (dres, w1)"
    by (cases "download_audio ev (str_value (audio_url req)) w") auto
  from download_audio_effect [OF nw d] d True assms(2) show ?thesis
    by (auto simp: predict_try_def Let_def split: sum.splits if_splits)
next
  case nu: False
  show ?thesis
  proof (cases "truthy (audioBase64 req)")
    case False
    with nu assms(2) show ?thesis by (auto simp: predict_try_def)
  next
    case True
    obtain ires ipath w1 where i: "inline_try ev req w = (ires, ipath, w1)"
      by (cases "inline_try ev req w") auto
    from inline_try_effect [OF nw i] i nu True assms(2) show ?thesis
      by (auto simp: predict_try_def split: sum.splits option.splits)
  qed
qed

text \<open>
  As long as no write fails, the \<open>finally\<close> clause removes the file the request created:
  the temporary directory is the same after the request as before it, and the request
  adds to the trace at most one network call and at most one file, created once and
  unlinked once.
\<close>

lemma predict_releases_when_writes_succeed:
  assumes nw: "\<And>p c. tmp_write_error ev p c = None"
  shows "files (snd (predict ev req w)) = files w \<and>
     (\<exists>net tmp. trace (snd (predict ev req w)) = trace w @ net @ tmp \<and>
        (net = [] \<or> net = [HttpGet (str_value (audio_url req))]) \<and>
        (tmp = [] \<or> (\<exists>p. tmp = [TmpCreate p, Unlink p])))"
proof -
  obtain res path w' where t: "predict_try ev req w = (res, path, w')"
    by (cases "predict_try ev req w") auto
  show ?thesis
  proof (cases path)
    case None
    with t have s: "snd (predict ev req w) = w'"
      by (simp add: predict_def finally_unlink_def)
    from None predict_try_effect [OF nw t]
    have f: "files w' = files w"
      and tr: "trace w' = trace w \<or> trace w' = trace w @ [HttpGet (str_value (audio_url req))]"
      by simp_all
    from tr have "\<exists>net tmp. trace w' = trace w @ net @ tmp \<and>
        (net = [] \<or> net = [HttpGet (str_value (audio_url req))]) \<and>
        (tmp = [] \<or> (\<exists>p. tmp = [TmpCreate p, Unlink p]))"
    proof
      assume "trace w' = trace w"
      then have "trace w' = trace w @ [] @ []" by simp
      then show ?thesis by blast
    next
      assume "trace w' = trace w @ [HttpGet (str_value (audio_url req))]"
      then have "trace w' = trace w @ [HttpGet (str_value (audio_url req))] @ []" by simp
      then show ?thesis by blast
    qed
    with f s show ?thesis by simp
  next
    case (Some p)
    with predict_try_effect [OF nw t]
    have f: "files w p = None" and c: "\<exists>c. files w' = (files w)(p \<mapsto> c)"
      and tr: "trace w' = trace w @ [TmpCreate p] \<or>
               trace w' = trace w @ [HttpGet (str_value (audio_url req)), TmpCreate p]"
      by simp_all
    from c obtain c0 where c0: "files w' = (files w)(p \<mapsto> c0)" by blast
    with Some t have s: "snd (predict ev req w) =
        w'\<lparr>files := (files w')(p := None), trace := trace w' @ [Unlink p]\<rparr>"
      by (simp add: predict_def finally_unlink_def)
    have "files (snd (predict ev req w)) = files w"
      using s c0 f by (simp add: fun_upd_idem)
    moreover from tr have "\<exists>net tmp. trace (snd (predict ev req w)) = trace w @ net @ tmp \<and>
        (net = [] \<or> net = [HttpGet (str_value (audio_url req))]) \<and>
        (tmp = [] \<or> (\<exists>p. tmp = [TmpCreate p, Unlink p]))"
    proof
      assume "trace w' = trace w @ [TmpCreate p]"
      with s have "trace (snd (predict ev req w)) = trace w @ [] @ [TmpCreate p, Unlink p]"
        by simp
      then show ?thesis by blast
    next
      assume "trace w' = trace w @ [HttpGet (str_value (audio_url req)), TmpCreate p]"
      with s have "trace (snd (predict ev req w)) =
          trace w @ [HttpGet (str_value (audio_url req))] @ [TmpCreate p, Unlink p]"
        by simp
      then show ?thesis by blast
    qed
    ultimately show ?thesis by blast
  qed
qed

section \<open>The claims\<close>

text \<open>
  Claim C1. When the request takes the inline branch (\<open>audio_url\<close> is absent or empty and
  \<open>audioBase64\<close> is a non-empty string) and any step of the inner \<open>try\<close> block raises
  (decoding the base64 text, creating or writing the file, reading the audio, computing
  the features), \<open>predict\<close> returns a response and no error, and the response is the fixed
  result: "AI Generated", 0.71, the requested language or "English", and the fixed
  explanation.
\<close>

theorem inline_failure_gives_fallback:
  assumes "\<not> truthy (audio_url req)" and "truthy (audioBase64 req)"
    and "fst (inline_try ev req w) = Inl e"
  shows "fst (predict ev req w) =
     Inr \<lparr>classification = ''AI Generated'', confidence = 0.71,
          language = (case AudioRequest.language req of
                        None \<Rightarrow> ''English''
                      | Some l \<Rightarrow> if l = [] then ''English'' else l),
          explanation =
            ''Analysis suggests ai generated voice: consistent spectral properties''\<rparr>"
  using assms
  by (cases "inline_try ev req w")
     (simp add: predict_def predict_try_def py_or_cases split: prod.splits)

theorem inline_failure_gives_fallback_witness:
  "fst (predict example_env
     \<lparr>audio_url = None, audioBase64 = Some ''not-base64-!!'', audioFormat = None,
      language = Some ''Tamil''\<rparr> empty_world) =
     Inr \<lparr>classification = ''AI Generated'', confidence = 0.71, language = ''Tamil'',
          explanation =
            ''Analysis suggests ai generated voice: consistent spectral properties''\<rparr>"
proof -
  let ?req = "\<lparr>audio_url = None, audioBase64 = Some ''not-base64-!!'', audioFormat = None,
      language = Some ''Tamil''\<rparr>"
  have "fst (inline_try example_env ?req empty_world) = Inl (ValueError ''Invalid base64 audio'')"
    by (simp add: inline_try_b64_fails example_env_def)
  from inline_failure_gives_fallback [OF _ _ this] show ?thesis by simp
qed

text \<open>
  Claim C2, as amended. For a constant waveform of at least two samples, all equal to \<open>c\<close>,
  feature extraction does not raise and returns energy \<open>c\<^sup>2\<close>, zero-crossing rate 0 and
  peak density 0. The energy is 0 only when \<open>c\<close> is 0.
\<close>

theorem constant_waveform_features:
  assumes "2 \<le> length audio" and "\<forall>s \<in> set audio. s = c"
  shows "extract_features_from ev (Mono audio) =
     Inr \<lparr>energy = Flt (c ^ 2), zcr = Flt 0, peak_density = Flt 0\<rparr>"
proof -
  from assms(2) have "replicate (length audio) c = audio" by (rule replicate_length_same)
  moreover from assms(1) have "0 < length audio" "length audio \<noteq> 1" by auto
  ultimately show ?thesis using features_of_constant [where n = "length audio" and c = c and ev = ev] by simp
qed

theorem constant_waveform_features_witness:
  "extract_features_from example_env (Mono [1 / 2, 1 / 2, 1 / 2]) =
     Inr \<lparr>energy = Flt (1 / 4), zcr = Flt 0, peak_density = Flt 0\<rparr>"
  using constant_waveform_features [where audio = "[1 / 2, 1 / 2, 1 / 2]" and c = "1 / 2" and ev = example_env]
  by (simp add: power2_eq_square)

text \<open>
  The claim as first stated fails at three waveforms: the empty one, where the division by
  the sample count raises \<open>ZeroDivisionError\<close>; the constant 1, whose energy is 1; and a
  single sample, whose zero-crossing rate is the mean of no differences, \<open>nan\<close>.
\<close>

theorem degenerate_waveform_counterexample:
  "extract_features_from example_env (Mono []) = Inl ZeroDivisionError
   \<and> extract_features_from example_env (Mono [1, 1]) =
       Inr \<lparr>energy = Flt 1, zcr = Flt 0, peak_density = Flt 0\<rparr>
   \<and> extract_features_from example_env (Mono [0]) =
       Inr \<lparr>energy = Flt 0, zcr = NaN, peak_density = Flt 0\<rparr>"
proof (intro conjI)
  show "extract_features_from example_env (Mono []) = Inl ZeroDivisionError"
    by (simp add: extract_features_from_def py_truediv_def)
  show "extract_features_from example_env (Mono [1, 1]) =
       Inr \<lparr>energy = Flt 1, zcr = Flt 0, peak_density = Flt 0\<rparr>"
    using features_of_constant [where n = 2 and c = 1 and ev = example_env] by (simp add: numeral_2_eq_2)
  show "extract_features_from example_env (Mono [0]) =
       Inr \<lparr>energy = Flt 0, zcr = NaN, peak_density = Flt 0\<rparr>"
    using features_of_constant [where n = 1 and c = 0 and ev = example_env] by simp
qed

text \<open>
  Claim C3. The confidence of \<open>analyze\<close> is 0.5, plus 0.2 when the peak density is below
  0.01, plus 0.2 when the zero-crossing rate is below 0.05, capped at 1.0 and rounded to
  two decimals; the explanation lists "uniform waveform structure" and "low zero-crossing
  rate" for the tests that fired, in this order; the label is "AI Generated" exactly when
  the confidence is greater than 0.55 and "Human" exactly when it is at most 0.55.
\<close>

theorem analyze_scoring_rule:
  "confidence (analyze fs lang) =
     py_round (min (0.5 + (if flt_less (peak_density fs) 0.01 then 0.2 else 0)
                        + (if flt_less (zcr fs) 0.05 then 0.2 else 0)) 1.0) 2
   \<and> explanation (analyze fs lang) =
       ''Analysis suggests '' @ str_lower (classification (analyze fs lang)) @ '' voice: '' @
       str_join '', ''
         ((if flt_less (peak_density fs) 0.01 then [''uniform waveform structure''] else []) @
          (if flt_less (zcr fs) 0.05 then [''low zero-crossing rate''] else []))
   \<and> (classification (analyze fs lang) = ''AI Generated'' \<longleftrightarrow>
        0.55 < confidence (analyze fs lang))
   \<and> (classification (analyze fs lang) = ''Human'' \<longleftrightarrow>
        confidence (analyze fs lang) \<le> 0.55)"
  by (cases "flt_less (peak_density fs) 0.01"; cases "flt_less (zcr fs) 0.05")
     (simp_all add: analyze_table py_round_half py_round_07 py_round_09
        str_lower_ai str_lower_human)

theorem analyze_scoring_rule_witness:
  "confidence (analyze \<lparr>energy = Flt 1, zcr = Flt 0, peak_density = Flt 1\<rparr> ''Hindi'') = 7 / 10
   \<and> classification (analyze \<lparr>energy = Flt 1, zcr = Flt 0, peak_density = Flt 1\<rparr> ''Hindi'')
       = ''AI Generated''
   \<and> explanation (analyze \<lparr>energy = Flt 1, zcr = Flt 0, peak_density = Flt 1\<rparr> ''Hindi'')
       = ''Analysis suggests ai generated voice: low zero-crossing rate''"
proof -
  let ?r = "analyze \<lparr>energy = Flt 1, zcr = Flt 0, peak_density = Flt 1\<rparr> ''Hindi''"
  note rule = analyze_scoring_rule
    [of "\<lparr>energy = Flt 1, zcr = Flt 0, peak_density = Flt 1\<rparr>" "''Hindi''"]
  from rule [THEN conjunct1] have c: "confidence ?r = 7 / 10" by (simp add: py_round_07)
  from rule [THEN conjunct2, THEN conjunct2, THEN conjunct1] c
  have l: "classification ?r = ''AI Generated''" by simp
  from rule [THEN conjunct2, THEN conjunct1]
  have "explanation ?r = ''Analysis suggests ai generated voice: low zero-crossing rate''"
    by (simp add: l str_lower_ai)
  with c l show ?thesis by simp
qed

text \<open>
  Claim C4, as amended. For a non-empty mono waveform of \<open>n\<close> samples the extracted features
  are: as energy, the mean of the squared samples; as peak density, the number of local
  maxima of the absolute-valued waveform in the sense of the peak search (a run of equal
  samples higher than the sample before it and the sample after it counts once, the first
  and the last sample never count) whose height is at least the value that \<open>np.std\<close>
  returned for the waveform, divided by \<open>n\<close>; and, when \<open>n\<close> is at least 2, as zero-crossing
  rate the sum of the absolute differences between the signs of neighbouring samples,
  divided by \<open>n - 1\<close>.
\<close>

theorem features_in_index_form:
  assumes "audio \<noteq> []"
  shows "\<exists>fs. extract_features_from ev (Mono audio) = Inr fs
     \<and> energy fs = Flt (mean_of_squares audio)
     \<and> (2 \<le> length audio \<longrightarrow> zcr fs = Flt (mean_abs_sign_change audio))
     \<and> peak_density fs =
         Flt (real (case np_std ev audio of
                      Flt h \<Rightarrow> count_maxima_reaching (map abs audio) h
                    | NaN \<Rightarrow> 0) /
              real (length audio))"
  using assms
  by (simp add: extract_features_from_def py_truediv_def np_mean_energy np_mean_zcr
        find_peaks_length)

theorem features_in_index_form_witness:
  "extract_features_from example_env (Mono [0, - 1, 0]) =
     Inr \<lparr>energy = Flt (1 / 3), zcr = Flt 1, peak_density = Flt (1 / 3)\<rparr>"
proof -
  have e: "mean_of_squares [0, - 1, 0] = 1 / 3" by code_simp
  have z: "mean_abs_sign_change [0, - 1, 0] = 1" by code_simp
  have sd: "np_std example_env [0, - 1, 0] = Flt (sqrt (2 / 9))"
    by (simp add: example_env_def np_std_exact_eq standard_deviation_def Let_def
          power2_eq_square)
  have lm: "local_maxima_1d [0, 1, 0] = [1]" by code_simp
  have c: "count_maxima_reaching (map abs [0, - 1, 0]) (sqrt (2 / 9)) = 1"
    by (simp add: find_peaks_count [symmetric] find_peaks_def lm)
  have ne: "[0, - 1, 0 :: real] \<noteq> []" by simp
  from features_in_index_form [OF ne, of example_env]
  obtain fs where fs: "extract_features_from example_env (Mono [0, - 1, 0]) = Inr fs"
    and en: "energy fs = Flt (mean_of_squares [0, - 1, 0])"
    and zc: "2 \<le> length [0, - 1, 0 :: real] \<longrightarrow>
             zcr fs = Flt (mean_abs_sign_change [0, - 1, 0])"
    and pd: "peak_density fs =
         Flt (real (case np_std example_env [0, - 1, 0] of
                      Flt h \<Rightarrow> count_maxima_reaching (map abs [0, - 1, 0]) h
                    | NaN \<Rightarrow> 0) /
              real (length [0, - 1, 0 :: real]))"
    by blast
  from en have en': "energy fs = Flt (1 / 3)" by (simp only: e)
  from zc have zc': "zcr fs = Flt 1" by (simp add: z)
  from pd have pd': "peak_density fs = Flt (1 / 3)" by (simp only: sd c pyfloat.case) simp
  from en' zc' pd' have "fs = \<lparr>energy = Flt (1 / 3), zcr = Flt 1, peak_density = Flt (1 / 3)\<rparr>"
    by (cases fs) simp
  with fs show ?thesis by simp
qed

text \<open>
  The claim as first stated fails in three ways. On the two samples 1, -1 the code's
  zero-crossing rate is 2, the one sign change divided by \<open>n - 1\<close>, where a division by
  the sequence length gives 1. On the samples 0, 1/2, -1/2, 0 the absolute values have a
  flat top, which the code counts as one maximum though no sample is strictly greater
  than both its neighbours. On the nine samples -1, -8, -9, 3, -6, 0, 9, 7, 2 three maxima
  reach the standard deviation 6, but the computed threshold is the next float64 number
  after 6 and the code counts two.
\<close>

theorem features_as_worded_counterexample:
  "extract_features_from example_env (Mono [1, - 1]) =
       Inr \<lparr>energy = Flt 1, zcr = Flt 2, peak_density = Flt 0\<rparr>
   \<and> sign_changes_per_sample [1, - 1] = 1
   \<and> extract_features_from example_env (Mono [0, 1 / 2, - 1 / 2, 0]) =
       Inr \<lparr>energy = Flt (1 / 8), zcr = Flt (4 / 3), peak_density = Flt (1 / 4)\<rparr>
   \<and> count_strict_maxima_reaching (map abs [0, 1 / 2, - 1 / 2, 0])
         (standard_deviation [0, 1 / 2, - 1 / 2, 0]) = 0
   \<and> extract_features_from float64_env (Mono [- 1, - 8, - 9, 3, - 6, 0, 9, 7, 2]) =
       Inr \<lparr>energy = Flt (325 / 9), zcr = Flt (3 / 4), peak_density = Flt (2 / 9)\<rparr>
   \<and> standard_deviation [- 1, - 8, - 9, 3, - 6, 0, 9, 7, 2] = 6
   \<and> count_maxima_reaching (map abs [- 1, - 8, - 9, 3, - 6, 0, 9, 7, 2]) 6 = 3"
proof (intro conjI)
  have lm2: "local_maxima_1d [1, 1] = []" by code_simp
  show "extract_features_from example_env (Mono [1, - 1]) =
       Inr \<lparr>energy = Flt 1, zcr = Flt 2, peak_density = Flt 0\<rparr>"
    by (simp add: extract_features_from_def np_mean_def find_peaks_def lm2 py_truediv_def)
  show "sign_changes_per_sample [1, - 1] = 1" by code_simp
next
  have lm4: "local_maxima_1d [0, 1 / 2, 1 / 2, 0] = [1]" by code_simp
  have fp: "find_peaks (map abs [0, 1 / 2, - 1 / 2, 0])
              (np_std example_env [0, 1 / 2, - 1 / 2, 0]) = [1]"
    by (simp add: example_env_def find_peaks_std np_mean_def lm4 power2_eq_square)
  show "extract_features_from example_env (Mono [0, 1 / 2, - 1 / 2, 0]) =
       Inr \<lparr>energy = Flt (1 / 8), zcr = Flt (4 / 3), peak_density = Flt (1 / 4)\<rparr>"
    using fp
    by (simp add: extract_features_from_def np_mean_def py_truediv_def power2_eq_square)
  have ns: "\<not> strict_maximum_at [0, 1 / 2, 1 / 2, 0] i" for i
  proof -
    consider "i = 0" | "i = 1" | "i = 2" | "3 \<le> i" by linarith
    then show ?thesis by cases (simp_all add: strict_maximum_at_def)
  qed
  show "count_strict_maxima_reaching (map abs [0, 1 / 2, - 1 / 2, 0])
         (standard_deviation [0, 1 / 2, - 1 / 2, 0]) = 0"
    by (simp add: count_strict_maxima_reaching_def ns)
next
  have lm9: "local_maxima_1d [1, 8, 9, 3, 6, 0, 9, 7, 2] = [2, 4, 6]" by code_simp
  have fp: "find_peaks (map abs [- 1, - 8, - 9, 3, - 6, 0, 9, 7, 2])
              (np_std float64_env [- 1, - 8, - 9, 3, - 6, 0, 9, 7, 2]) = [2, 6]"
    by (simp add: float64_env_def find_peaks_def lm9)
  show "extract_features_from float64_env (Mono [- 1, - 8, - 9, 3, - 6, 0, 9, 7, 2]) =
       Inr \<lparr>energy = Flt (325 / 9), zcr = Flt (3 / 4), peak_density = Flt (2 / 9)\<rparr>"
    using fp
    by (simp add: extract_features_from_def np_mean_def py_truediv_def)
  have "standard_deviation [- 1, - 8, - 9, 3, - 6, 0, 9, 7, 2] = sqrt 36"
    by (simp add: standard_deviation_def Let_def power2_eq_square)
  also have "sqrt 36 = 6" by (rule real_sqrt_unique) simp_all
  finally show "standard_deviation [- 1, - 8, - 9, 3, - 6, 0, 9, 7, 2] = 6" .
  have "length (find_peaks (map abs [- 1, - 8, - 9, 3, - 6, 0, 9, 7, 2]) (Flt 6)) = 3"
    by (simp add: find_peaks_def lm9)
  then show "count_maxima_reaching (map abs [- 1, - 8, - 9, 3, - 6, 0, 9, 7, 2]) 6 = 3"
    by (simp only: find_peaks_count)
qed

text \<open>
  Claim C5, as amended. For an all-zero waveform of at least two samples, feature
  extraction yields peak density 0 and zero-crossing rate 0, both tests of the classifier
  fire, and the verdict is "AI Generated" with confidence 0.9.
\<close>

theorem silent_waveform_verdict:
  assumes "2 \<le> length audio" and "\<forall>s \<in> set audio. s = 0"
  shows "extract_features_from ev (Mono audio) =
       Inr \<lparr>energy = Flt 0, zcr = Flt 0, peak_density = Flt 0\<rparr>
   \<and> flt_less (peak_density \<lparr>energy = Flt 0, zcr = Flt 0, peak_density = Flt 0\<rparr>) 0.01
   \<and> flt_less (zcr \<lparr>energy = Flt 0, zcr = Flt 0, peak_density = Flt 0\<rparr>) 0.05
   \<and> analyze \<lparr>energy = Flt 0, zcr = Flt 0, peak_density = Flt 0\<rparr> lang =
       \<lparr>classification = ''AI Generated'', confidence = 0.9, language = lang,
        explanation =
          ''Analysis suggests ai generated voice: uniform waveform structure, low zero-crossing rate''\<rparr>"
proof -
  from assms(2) have "replicate (length audio) 0 = audio" by (rule replicate_length_same)
  moreover from assms(1) have "0 < length audio" "length audio \<noteq> 1" by auto
  ultimately have "extract_features_from ev (Mono audio) =
       Inr \<lparr>energy = Flt 0, zcr = Flt 0, peak_density = Flt 0\<rparr>"
    using features_of_constant [where n = "length audio" and c = 0 and ev = ev] by simp
  then show ?thesis by (simp add: analyze_both)
qed

theorem silent_waveform_verdict_witness:
  "extract_features_from example_env (Mono [0, 0, 0]) =
       Inr \<lparr>energy = Flt 0, zcr = Flt 0, peak_density = Flt 0\<rparr>
   \<and> analyze \<lparr>energy = Flt 0, zcr = Flt 0, peak_density = Flt 0\<rparr> ''English'' =
       \<lparr>classification = ''AI Generated'', confidence = 0.9, language = ''English'',
        explanation =
          ''Analysis suggests ai generated voice: uniform waveform structure, low zero-crossing rate''\<rparr>"
  using silent_waveform_verdict [where audio = "[0, 0, 0]" and lang = "''English''" and ev = example_env] by simp

text \<open>
  The claim as first stated fails for a single silent sample: its zero-crossing rate is
  \<open>nan\<close>, the second test does not fire, and the confidence is 0.7.
\<close>

theorem single_silent_sample_counterexample:
  "extract_features_from example_env (Mono [0]) =
       Inr \<lparr>energy = Flt 0, zcr = NaN, peak_density = Flt 0\<rparr>
   \<and> analyze \<lparr>energy = Flt 0, zcr = NaN, peak_density = Flt 0\<rparr> ''English'' =
       \<lparr>classification = ''AI Generated'', confidence = 0.7, language = ''English'',
        explanation = ''Analysis suggests ai generated voice: uniform waveform structure''\<rparr>"
  using features_of_constant [where n = 1 and c = 0 and ev = example_env] by (simp add: analyze_peak_only)

text \<open>
  Claim C6, at a request the code can receive: a valid inline payload on a full disk. The
  temporary file is created, writing it fails, \<open>save_base64_audio\<close> raises before
  \<open>predict\<close> has assigned \<open>path\<close>, and the \<open>finally\<close> clause has nothing to unlink: the
  request answers with the fixed result and leaves the file behind, with no \<open>Unlink\<close> in
  the trace.
\<close>

theorem temp_file_left_behind_on_write_failure:
  "predict disk_full_env
     \<lparr>audio_url = None, audioBase64 = Some ''AAAA'', audioFormat = None, language = None\<rparr>
     empty_world =
   (Inr \<lparr>classification = ''AI Generated'', confidence = 0.71, language = ''English'',
         explanation =
           ''Analysis suggests ai generated voice: consistent spectral properties''\<rparr>,
    \<lparr>files = [''/tmp/tmpa1.wav'' \<mapsto> []], trace = [TmpCreate ''/tmp/tmpa1.wav'']\<rparr>)"
  by (simp add: predict_def predict_try_def inline_try_def save_base64_audio_def
        save_base64_audio_try_def named_temporary_file_def write_and_close_def
        finally_unlink_def disk_full_env_def example_env_def empty_world_def py_or_def Let_def)




text \<open>
  Claim C8, as amended. Whenever \<open>predict\<close> returns a response, whether the classifier's
  verdict with either label or the fixed result, its language is the request's language
  when that is a non-empty string, and "English" when the field is absent, null or the
  empty string.
\<close>

theorem response_language_passthrough:
  assumes "fst (predict ev req w) = Inr r"
  shows "PredictionResponse.language r =
     (case AudioRequest.language req of
        None \<Rightarrow> ''English''
      | Some l \<Rightarrow> if l = [] then ''English'' else l)"
proof -
  from response_origin [OF assms]
  have "PredictionResponse.language r = py_or (AudioRequest.language req) ''English''"
    by (auto simp: analyze_language)
  then show ?thesis by (simp add: py_or_cases)
qed

theorem response_language_passthrough_witness:
  "PredictionResponse.language
     \<lparr>classification = ''AI Generated'', confidence = 0.71, language = ''Tamil'',
      explanation =
        ''Analysis suggests ai generated voice: consistent spectral properties''\<rparr> = ''Tamil''
   \<and> fst (predict example_env
       \<lparr>audio_url = None, audioBase64 = Some ''not-base64-!!'', audioFormat = None,
        language = Some ''Tamil''\<rparr> empty_world) =
     Inr \<lparr>classification = ''AI Generated'', confidence = 0.71, language = ''Tamil'',
          explanation =
            ''Analysis suggests ai generated voice: consistent spectral properties''\<rparr>"
proof -
  let ?req = "\<lparr>audio_url = None, audioBase64 = Some ''not-base64-!!'', audioFormat = None,
      language = Some ''Tamil''\<rparr>"
  let ?r = "\<lparr>classification = ''AI Generated'', confidence = 0.71, language = ''Tamil'',
      explanation =
        ''Analysis suggests ai generated voice: consistent spectral properties''\<rparr>"
  have p: "fst (predict example_env ?req empty_world) = Inr ?r"
    by (simp add: predict_def predict_try_def inline_try_b64_fails example_env_def py_or_def)
  from response_language_passthrough [OF p] p show ?thesis by simp
qed

text \<open>
  The claim as first stated fails for the empty string: the request supplies the language
  \<open>''''\<close> and the response carries "English".
\<close>

theorem empty_language_replaced:
  "fst (predict example_env
     \<lparr>audio_url = None, audioBase64 = Some ''not-base64-!!'', audioFormat = None,
      language = Some ''''\<rparr> empty_world) =
     Inr \<lparr>classification = ''AI Generated'', confidence = 0.71, language = ''English'',
          explanation =
            ''Analysis suggests ai generated voice: consistent spectral properties''\<rparr>
   \<and> ''English'' \<noteq> ''''"
  by (simp add: predict_def predict_try_def inline_try_b64_fails example_env_def py_or_def)

text \<open>
  Claim C9, as amended. When \<open>audio_url\<close> is a non-empty string, a request that also carries
  \<open>audioBase64\<close> is handled exactly as the same request without it: same outcome, same
  effects. It is therefore never rejected for carrying both fields, and every response
  it gets is the classifier's verdict, not the fixed result of the inline branch.
\<close>

theorem url_path_when_both_given:
  assumes "audio_url req = Some url" and "url \<noteq> []"
  shows "predict ev req w = predict ev (req\<lparr>audioBase64 := None\<rparr>) w
     \<and> (\<forall>r. fst (predict ev req w) = Inr r \<longrightarrow>
            (\<exists>fs. r = analyze fs (py_or (AudioRequest.language req) ''English'')) \<and>
            confidence r \<noteq> 0.71)"
proof
  show "predict ev req w = predict ev (req\<lparr>audioBase64 := None\<rparr>) w"
  proof -
    have "predict_try ev (req\<lparr>audioBase64 := None\<rparr>) w = predict_try ev req w"
      using assms by (simp add: predict_try_def Let_def split: sum.splits prod.splits)
    then show ?thesis by (simp add: predict_def)
  qed
  have nc: "confidence (analyze fs l) \<noteq> 0.71" for fs l
    using analyze_confidence_cases [of fs l] by auto
  show "\<forall>r. fst (predict ev req w) = Inr r \<longrightarrow>
            (\<exists>fs. r = analyze fs (py_or (AudioRequest.language req) ''English'')) \<and>
            confidence r \<noteq> 0.71"
  proof (intro allI impI)
    fix r assume "fst (predict ev req w) = Inr r"
    with assms url_response_origin [of req ev w r]
    obtain fs where "r = analyze fs (py_or (AudioRequest.language req) ''English'')"
      by (auto simp: fst_predict)
    with nc show "(\<exists>fs. r = analyze fs (py_or (AudioRequest.language req) ''English'')) \<and>
            confidence r \<noteq> 0.71"
      by blast
  qed
qed

theorem url_path_when_both_given_witness:
  "predict example_env
     \<lparr>audio_url = Some ''ftp://host/file'', audioBase64 = Some ''AAAA'', audioFormat = None,
      language = None\<rparr> empty_world
   = predict example_env
     \<lparr>audio_url = Some ''ftp://host/file'', audioBase64 = None, audioFormat = None,
      language = None\<rparr> empty_world"
  using url_path_when_both_given [of
      "\<lparr>audio_url = Some ''ftp://host/file'', audioBase64 = Some ''AAAA'', audioFormat = None,
        language = None\<rparr>" "''ftp://host/file''" example_env empty_world]
  by simp

text \<open>
  The claim as first stated fails when the supplied \<open>audio_url\<close> is the empty string: the
  request takes the inline branch and gets its fixed result, while the same request
  without the payload is rejected.
\<close>

theorem empty_url_takes_inline_path:
  "fst (predict example_env
     \<lparr>audio_url = Some '''', audioBase64 = Some ''not-base64-!!'', audioFormat = None,
      language = None\<rparr> empty_world) =
     Inr \<lparr>classification = ''AI Generated'', confidence = 0.71, language = ''English'',
          explanation =
            ''Analysis suggests ai generated voice: consistent spectral properties''\<rparr>
   \<and> fst (predict example_env
     \<lparr>audio_url = Some '''', audioBase64 = None, audioFormat = None,
      language = None\<rparr> empty_world) =
     Inl (HTTPException 422 ''audio_url or audioBase64 required'')"
  by (simp add: predict_def predict_try_def inline_try_b64_fails example_env_def py_or_def)

text \<open>
  Claim C10. The confidence values that \<open>analyze\<close> can return are exactly 0.5, 0.7 and 0.9.
  A response of \<open>predict\<close> with confidence 0.71 is the fixed result of the inline branch,
  returned after a step of that branch failed.
\<close>

theorem classifier_confidence_values:
  "range (\<lambda>fs. confidence (analyze fs lang)) = {0.5, 0.7, 0.9}
   \<and> (fst (predict ev req w) = Inr r \<and> confidence r = 0.71 \<longrightarrow>
        \<not> truthy (audio_url req) \<and> truthy (audioBase64 req) \<and>
        (\<exists>e. fst (inline_try ev req w) = Inl e) \<and>
        r = \<lparr>classification = ''AI Generated'', confidence = 0.71,
             language = py_or (AudioRequest.language req) ''English'',
             explanation =
               ''Analysis suggests ai generated voice: consistent spectral properties''\<rparr>)"
proof (intro conjI impI)
  show "range (\<lambda>fs. confidence (analyze fs lang)) = {0.5, 0.7, 0.9}"
  proof (intro equalityI subsetI)
    fix c assume "c \<in> range (\<lambda>fs. confidence (analyze fs lang))"
    then obtain fs where "c = confidence (analyze fs lang)" by blast
    with analyze_confidence_cases [of fs lang] show "c \<in> {0.5, 0.7, 0.9}" by auto
  next
    fix c :: real assume "c \<in> {0.5, 0.7, 0.9}"
    then consider "c = 0.5" | "c = 0.7" | "c = 0.9" by blast
    then show "c \<in> range (\<lambda>fs. confidence (analyze fs lang))"
    proof cases
      case 1
      have "confidence (analyze \<lparr>energy = Flt 0, zcr = Flt 1, peak_density = Flt 1\<rparr> lang) = 0.5"
        by (simp add: analyze_none)
      with 1 show ?thesis by (metis rangeI)
    next
      case 2
      have "confidence (analyze \<lparr>energy = Flt 0, zcr = Flt 1, peak_density = Flt 0\<rparr> lang) = 0.7"
        by (simp add: analyze_peak_only)
      with 2 show ?thesis by (metis rangeI)
    next
      case 3
      have "confidence (analyze \<lparr>energy = Flt 0, zcr = Flt 0, peak_density = Flt 0\<rparr> lang) = 0.9"
        by (simp add: analyze_both)
      with 3 show ?thesis by (metis rangeI)
    qed
  qed
next
  assume a: "fst (predict ev req w) = Inr r \<and> confidence r = 0.71"
  have nc: "confidence (analyze fs l) \<noteq> 0.71" for fs l
    using analyze_confidence_cases [of fs l] by auto
  from a nc response_origin [of ev req w r]
  have *: "\<not> truthy (audio_url req) \<and> truthy (audioBase64 req) \<and>
          (\<exists>e. fst (inline_try ev req w) = Inl e) \<and>
          r = \<lparr>classification = ''AI Generated'', confidence = 0.71,
               language = py_or (AudioRequest.language req) ''English'',
               explanation =
                 ''Analysis suggests ai generated voice: consistent spectral properties''\<rparr>"
    by blast
  from * show "\<not> truthy (audio_url req)" by blast
  from * show "truthy (audioBase64 req)" by blast
  from * show "\<exists>e. fst (inline_try ev req w) = Inl e" by blast
  from * show "r = \<lparr>classification = ''AI Generated'', confidence = 0.71,
             language = py_or (AudioRequest.language req) ''English'',
             explanation =
               ''Analysis suggests ai generated voice: consistent spectral properties''\<rparr>"
    by blast
qed

theorem classifier_confidence_values_witness:
  "range (\<lambda>fs. confidence (analyze fs ''English'')) = {0.5, 0.7, 0.9}
   \<and> fst (predict example_env
       \<lparr>audio_url = None, audioBase64 = Some ''not-base64-!!'', audioFormat = None,
        language = None\<rparr> empty_world) =
     Inr \<lparr>classification = ''AI Generated'', confidence = 0.71, language = ''English'',
          explanation =
            ''Analysis suggests ai generated voice: consistent spectral properties''\<rparr>
   \<and> (\<exists>e. fst (inline_try example_env
       \<lparr>audio_url = None, audioBase64 = Some ''not-base64-!!'', audioFormat = None,
        language = None\<rparr> empty_world) = Inl e)"
proof -
  let ?req = "\<lparr>audio_url = None, audioBase64 = Some ''not-base64-!!'', audioFormat = None,
      language = None\<rparr>"
  let ?r = "\<lparr>classification = ''AI Generated'', confidence = 0.71, language = ''English'',
      explanation =
        ''Analysis suggests ai generated voice: consistent spectral properties''\<rparr>"
  have p: "fst (predict example_env ?req empty_world) = Inr ?r"
    by (simp add: predict_def predict_try_def inline_try_b64_fails example_env_def py_or_def)
  from classifier_confidence_values [of "''English''" example_env ?req empty_world ?r] p
  show ?thesis by simp
qed

end
